theory Spec2Isabelle
  imports Main "HOL-Library.Word" "HOL-Library.Multiset"
begin

section \<open>Strings and small JavaScript helpers\<close>

text \<open>
  A JavaScript string is a sequence of UTF-16 code units. The literals of the source
  are written with \<open>ascii\<close>; the few accented letters of the Portuguese notices are given
  by their code unit (\<open>0xE3\<close> a-tilde, \<open>0xE7\<close> c-cedilla, \<open>0xED\<close> i-acute, \<open>0xF3\<close> o-acute).
\<close>

type_synonym jsstring = "16 word list"

type_synonym timestamp = nat

definition ascii :: "string \<Rightarrow> jsstring" where
  "ascii s = map of_char s"

text \<open>The code units that \<^verbatim>\<open>String.prototype.trim\<close> removes: WhiteSpace and LineTerminator.\<close>

definition is_js_whitespace :: "16 word \<Rightarrow> bool" where
  "is_js_whitespace c \<longleftrightarrow>
     c = 0x0009 \<or> c = 0x000A \<or> c = 0x000B \<or> c = 0x000C \<or> c = 0x000D \<or> c = 0x0020 \<or>
     c = 0x00A0 \<or> c = 0x1680 \<or> (0x2000 \<le> c \<and> c \<le> 0x200A) \<or> c = 0x2028 \<or> c = 0x2029 \<or>
     c = 0x202F \<or> c = 0x205F \<or> c = 0x3000 \<or> c = 0xFEFF"

definition trim :: "jsstring \<Rightarrow> jsstring" where
  "trim s = rev (dropWhile is_js_whitespace (rev (dropWhile is_js_whitespace s)))"

text \<open>\<^verbatim>\<open>a || b\<close> on strings: the empty string is falsy.\<close>

definition js_or :: "jsstring \<Rightarrow> jsstring \<Rightarrow> jsstring" where
  "js_or a b = (if a = [] then b else a)"

text \<open>The decimal digits of a number, as a template literal prints an HTTP status.\<close>

fun decimal :: "nat \<Rightarrow> jsstring" where
  "decimal n = (if n < 10 then [of_nat (48 + n)] else decimal (n div 10) @ [of_nat (48 + n mod 10)])"

declare decimal.simps [simp del]

text \<open>\<^verbatim>\<open>response.ok\<close> of the Fetch API: the status is in the range 200 to 299.\<close>

definition response_ok :: "nat \<Rightarrow> bool" where
  "response_ok status \<longleftrightarrow> 200 \<le> status \<and> status \<le> 299"

section \<open>The storage service\<close>

text \<open>
  Rows of the two tables, with the columns the source reads and writes. Timestamps are
  points on a time line (the source carries them as ISO strings and never compares them
  itself; the storage service orders by them).
\<close>

record conversation_row =
  c_id :: jsstring
  c_user_id :: jsstring
  c_title :: jsstring
  c_created_at :: timestamp
  c_updated_at :: timestamp

record message_row =
  m_id :: jsstring
  m_conversation_id :: jsstring
  m_content :: jsstring
  m_role :: jsstring
  m_created_at :: timestamp

record storage =
  tbl_conversations :: "conversation_row list"
  tbl_messages :: "message_row list"
  db_clock :: timestamp

text \<open>
  Every awaited query of the source resolves to a pair of data and error, which the
  source inspects (\<^verbatim>\<open>if (error) throw error\<close>); a query never rejects. The result is a
  sum: \<open>Inl\<close> carries the error's message, \<open>Inr\<close> the data. Whether a query fails for
  reasons outside the tables (network, permissions) is an input: each query takes the
  error the service answers with, if any.
\<close>

text \<open>
  Modelled from the spec: the storage service's insert-returning on \<^verbatim>\<open>messages\<close>
  (section 6). The schema that fills \<^verbatim>\<open>id\<close> and \<^verbatim>\<open>created_at\<close> is not part of the
  sources; the new id and the time elapsed on the service's clock since its last write are
  inputs, and the row is stamped with the service's clock.
\<close>

definition insert_message ::
  "jsstring + jsstring \<times> nat \<Rightarrow> jsstring \<Rightarrow> jsstring \<Rightarrow> jsstring \<Rightarrow> storage
     \<Rightarrow> (jsstring + message_row) \<times> storage" where
  "insert_message outcome conversation_id content role d =
     (case outcome of
        Inl err \<Rightarrow> (Inl err, d)
      | Inr (new_id, elapsed) \<Rightarrow>
          let t = db_clock d + elapsed;
              row = \<lparr>m_id = new_id, m_conversation_id = conversation_id, m_content = content,
                     m_role = role, m_created_at = t\<rparr>
          in (Inr row, d\<lparr>tbl_messages := tbl_messages d @ [row], db_clock := t\<rparr>))"

text \<open>
  Modelled from the spec: insert-returning on \<^verbatim>\<open>conversations\<close> (section 6); the
  schema's defaults for \<^verbatim>\<open>id\<close>, \<^verbatim>\<open>created_at\<close> and \<^verbatim>\<open>updated_at\<close> are not part of the sources.
\<close>

definition insert_conversation ::
  "jsstring + jsstring \<times> nat \<Rightarrow> jsstring \<Rightarrow> jsstring \<Rightarrow> storage
     \<Rightarrow> (jsstring + conversation_row) \<times> storage" where
  "insert_conversation outcome user title d =
     (case outcome of
        Inl err \<Rightarrow> (Inl err, d)
      | Inr (new_id, elapsed) \<Rightarrow>
          let t = db_clock d + elapsed;
              row = \<lparr>c_id = new_id, c_user_id = user, c_title = title,
                     c_created_at = t, c_updated_at = t\<rparr>
          in (Inr row, d\<lparr>tbl_conversations := tbl_conversations d @ [row], db_clock := t\<rparr>))"

text \<open>Modelled from the spec: update-by-id of \<^verbatim>\<open>updated_at\<close> on \<^verbatim>\<open>conversations\<close> (section 6).\<close>

definition update_conversation ::
  "jsstring option \<Rightarrow> jsstring \<Rightarrow> timestamp \<Rightarrow> storage \<Rightarrow> jsstring option \<times> storage" where
  "update_conversation failure conversation_id t d =
     (case failure of
        Some err \<Rightarrow> (Some err, d)
      | None \<Rightarrow>
          (None, d\<lparr>tbl_conversations :=
                     map (\<lambda>c. if c_id c = conversation_id then c\<lparr>c_updated_at := t\<rparr> else c)
                       (tbl_conversations d)\<rparr>))"

text \<open>
  Modelled from the spec: filtered select with \<^verbatim>\<open>.single()\<close> (section 6): the rows with
  this id and this owner; anything but exactly one row is an error.
\<close>

definition select_conversation_single ::
  "jsstring option \<Rightarrow> jsstring \<Rightarrow> jsstring \<Rightarrow> storage \<Rightarrow> jsstring + conversation_row" where
  "select_conversation_single failure conversation_id user d =
     (case failure of
        Some err \<Rightarrow> Inl err
      | None \<Rightarrow>
          (case filter (\<lambda>c. c_id c = conversation_id \<and> c_user_id c = user) (tbl_conversations d) of
             [c] \<Rightarrow> Inr c
           | _ \<Rightarrow> Inl (ascii ''JSON object requested, multiple (or no) rows returned'')))"

text \<open>
  Modelled from the spec: ordered select (section 6): the owner's conversations by
  \<^verbatim>\<open>updated_at\<close> descending, and the first \<open>n\<close> of them when a limit is given.
\<close>

definition select_conversations ::
  "jsstring option \<Rightarrow> jsstring \<Rightarrow> nat option \<Rightarrow> storage \<Rightarrow> jsstring + conversation_row list" where
  "select_conversations failure user limit d =
     (case failure of
        Some err \<Rightarrow> Inl err
      | None \<Rightarrow>
          let rows = rev (sort_key c_updated_at (filter (\<lambda>c. c_user_id c = user) (tbl_conversations d)))
          in Inr (case limit of None \<Rightarrow> rows | Some n \<Rightarrow> take n rows))"

text \<open>
  Modelled from the spec: ordered select (section 6): the messages of one conversation
  by \<^verbatim>\<open>created_at\<close> ascending.
\<close>

definition select_messages ::
  "jsstring option \<Rightarrow> jsstring \<Rightarrow> storage \<Rightarrow> jsstring + message_row list" where
  "select_messages failure conversation_id d =
     (case failure of
        Some err \<Rightarrow> Inl err
      | None \<Rightarrow> Inr (sort_key m_created_at
                       (filter (\<lambda>m. m_conversation_id m = conversation_id) (tbl_messages d))))"

section \<open>Effects and screen state\<close>

text \<open>
  The calls a screen issues, in the order it issues them: storage queries, the webhook
  request, notifications and navigation. A storage call is recorded with the values it
  filters by or writes; the webhook request with the three fields of its JSON body
  (\<^verbatim>\<open>message\<close>, \<^verbatim>\<open>user_id\<close>, \<^verbatim>\<open>conversation_id\<close>), its URL, method and headers being
  constants of the source; a notification with title, description and variant. Console
  output is not recorded.
\<close>

datatype effect =
    SelectConversation jsstring jsstring
  | SelectLatestConversation jsstring
  | SelectAllConversations jsstring
  | SelectMessages jsstring
  | InsertMessage jsstring jsstring jsstring
  | InsertConversation jsstring jsstring
  | UpdateConversation jsstring timestamp
  | PostWebhook jsstring jsstring jsstring
  | Toast jsstring jsstring jsstring
  | Navigate jsstring

text \<open>The outcome of the webhook request: \<^verbatim>\<open>fetch\<close> rejects, or answers with a status
  and a body whose reading (\<^verbatim>\<open>response.text()\<close>) rejects or gives the text.\<close>

datatype fetch_outcome =
    FetchRejected jsstring
  | FetchResponse nat "jsstring + jsstring"

record session =
  user_id :: jsstring

record chat_screen =
  session :: "session option"
  messages :: "message_row list"
  currentMessage :: jsstring
  isLoading :: bool
  currentConversation :: "jsstring option"
  conversationTitle :: jsstring
  searchParams_conversation :: "jsstring option"

record 'u world =
  db :: storage
  ui :: 'u
  log :: "effect list"

definition emit :: "effect \<Rightarrow> 'u world \<Rightarrow> 'u world" where
  "emit e w = w\<lparr>log := log w @ [e]\<rparr>"

definition toast :: "jsstring \<Rightarrow> jsstring \<Rightarrow> jsstring \<Rightarrow> 'u world \<Rightarrow> 'u world" where
  "toast title description variant w = emit (Toast title description variant) w"

definition navigate :: "jsstring \<Rightarrow> 'u world \<Rightarrow> 'u world" where
  "navigate path w = emit (Navigate path) w"

definition setMessages ::
  "(message_row list \<Rightarrow> message_row list) \<Rightarrow> chat_screen world \<Rightarrow> chat_screen world" where
  "setMessages f w = w\<lparr>ui := (ui w)\<lparr>messages := f (messages (ui w))\<rparr>\<rparr>"

definition setCurrentMessage :: "jsstring \<Rightarrow> chat_screen world \<Rightarrow> chat_screen world" where
  "setCurrentMessage s w = w\<lparr>ui := (ui w)\<lparr>currentMessage := s\<rparr>\<rparr>"

definition setIsLoading :: "bool \<Rightarrow> chat_screen world \<Rightarrow> chat_screen world" where
  "setIsLoading b w = w\<lparr>ui := (ui w)\<lparr>isLoading := b\<rparr>\<rparr>"

definition setCurrentConversation :: "jsstring \<Rightarrow> chat_screen world \<Rightarrow> chat_screen world" where
  "setCurrentConversation c w = w\<lparr>ui := (ui w)\<lparr>currentConversation := Some c\<rparr>\<rparr>"

definition setConversationTitle :: "jsstring \<Rightarrow> chat_screen world \<Rightarrow> chat_screen world" where
  "setConversationTitle t w = w\<lparr>ui := (ui w)\<lparr>conversationTitle := t\<rparr>\<rparr>"

section \<open>Message send\<close>

text \<open>What the services answer during one send, and the client's clock at the update.\<close>

record send_env =
  user_insert :: "jsstring + jsstring \<times> nat"
  webhook :: fetch_outcome
  ai_insert :: "jsstring + jsstring \<times> nat"
  conv_update_failure :: "jsstring option"
  client_now :: timestamp

subsection \<open>The screen with the navigation parameter (\<^verbatim>\<open>unnamed/part_000\<close>)\<close>

text \<open>The \<^verbatim>\<open>try\<close> block of \<^verbatim>\<open>sendMessage\<close>: the message of the thrown error, if any, and
  the state at that point.\<close>

definition send_try_part000 ::
  "send_env \<Rightarrow> session \<Rightarrow> jsstring \<Rightarrow> jsstring \<Rightarrow> chat_screen world
     \<Rightarrow> jsstring option \<times> chat_screen world" where
  "send_try_part000 env sess conv userMessage w0 =
     (let w1 = emit (InsertMessage conv userMessage (ascii ''user'')) w0 in
      case insert_message (user_insert env) conv userMessage (ascii ''user'') (db w1) of
        (Inl userError, d1) \<Rightarrow> (Some userError, w1\<lparr>db := d1\<rparr>)
      | (Inr userMessageData, d1) \<Rightarrow>
          let w2 = setMessages (\<lambda>prev. prev @ [userMessageData]) (w1\<lparr>db := d1\<rparr>);
              w3 = emit (PostWebhook userMessage (user_id sess) conv) w2
          in (case webhook env of
                FetchRejected e \<Rightarrow> (Some e, w3)
              | FetchResponse status body \<Rightarrow>
                  if \<not> response_ok status
                  then (Some (ascii ''Erro na comunica'' @ [0xE7, 0xE3] @ ascii ''o com o agente: ''
                                @ decimal status), w3)
                  else (case body of
                          Inl e \<Rightarrow> (Some e, w3)
                        | Inr aiResponse \<Rightarrow>
                            if aiResponse = [] \<or> trim aiResponse = []
                            then (Some (ascii ''Resposta vazia do agente IA''), w3)
                            else
                              let w4 = emit (InsertMessage conv aiResponse (ascii ''assistant'')) w3 in
                              (case insert_message (ai_insert env) conv aiResponse
                                      (ascii ''assistant'') (db w4) of
                                 (Inl aiError, d2) \<Rightarrow> (Some aiError, w4\<lparr>db := d2\<rparr>)
                               | (Inr aiMessageData, d2) \<Rightarrow>
                                   let w5 = setMessages (\<lambda>prev. prev @ [aiMessageData]) (w4\<lparr>db := d2\<rparr>);
                                       w6 = emit (UpdateConversation conv (client_now env)) w5;
                                       d3 = snd (update_conversation (conv_update_failure env) conv
                                                   (client_now env) (db w6))
                                   in (None, w6\<lparr>db := d3\<rparr>)))))"

definition sendMessage_part000 :: "send_env \<Rightarrow> chat_screen world \<Rightarrow> chat_screen world" where
  "sendMessage_part000 env w =
     (case (currentConversation (ui w), session (ui w)) of
        (Some conv, Some sess) \<Rightarrow>
          if trim (currentMessage (ui w)) = [] \<or> conv = [] then w
          else
            let userMessage = trim (currentMessage (ui w));
                w1 = setIsLoading True (setCurrentMessage [] w);
                (thrown, w2) = send_try_part000 env sess conv userMessage w1;
                w3 = (case thrown of
                        None \<Rightarrow> w2
                      | Some message \<Rightarrow>
                          toast (ascii ''Erro'')
                            (js_or message (ascii ''N'' @ [0xE3] @ ascii ''o foi poss'' @ [0xED]
                                              @ ascii ''vel enviar a mensagem''))
                            (ascii ''destructive'') w2)
            in setIsLoading False w3
      | _ \<Rightarrow> w)"

subsection \<open>The screen without it (\<^verbatim>\<open>src/pages/Chat.tsx\<close>)\<close>

definition send_try_ChatTsx ::
  "send_env \<Rightarrow> session \<Rightarrow> jsstring \<Rightarrow> jsstring \<Rightarrow> chat_screen world
     \<Rightarrow> jsstring option \<times> chat_screen world" where
  "send_try_ChatTsx env sess conv userMessage w0 =
     (let w1 = emit (InsertMessage conv userMessage (ascii ''user'')) w0 in
      case insert_message (user_insert env) conv userMessage (ascii ''user'') (db w1) of
        (Inl userError, d1) \<Rightarrow> (Some userError, w1\<lparr>db := d1\<rparr>)
      | (Inr userMessageData, d1) \<Rightarrow>
          let w2 = setMessages (\<lambda>prev. prev @ [userMessageData]) (w1\<lparr>db := d1\<rparr>);
              w3 = emit (PostWebhook userMessage (user_id sess) conv) w2
          in (case webhook env of
                FetchRejected e \<Rightarrow> (Some e, w3)
              | FetchResponse status body \<Rightarrow>
                  if \<not> response_ok status
                  then (Some (ascii ''Erro na comunica'' @ [0xE7, 0xE3] @ ascii ''o com o agente''), w3)
                  else (case body of
                          Inl e \<Rightarrow> (Some e, w3)
                        | Inr aiResponse \<Rightarrow>
                            let w4 = emit (InsertMessage conv aiResponse (ascii ''assistant'')) w3 in
                            (case insert_message (ai_insert env) conv aiResponse
                                    (ascii ''assistant'') (db w4) of
                               (Inl aiError, d2) \<Rightarrow> (Some aiError, w4\<lparr>db := d2\<rparr>)
                             | (Inr aiMessageData, d2) \<Rightarrow>
                                 let w5 = setMessages (\<lambda>prev. prev @ [aiMessageData]) (w4\<lparr>db := d2\<rparr>);
                                     w6 = emit (UpdateConversation conv (client_now env)) w5;
                                     d3 = snd (update_conversation (conv_update_failure env) conv
                                                 (client_now env) (db w6))
                                 in (None, w6\<lparr>db := d3\<rparr>)))))"

definition sendMessage_ChatTsx :: "send_env \<Rightarrow> chat_screen world \<Rightarrow> chat_screen world" where
  "sendMessage_ChatTsx env w =
     (case (currentConversation (ui w), session (ui w)) of
        (Some conv, Some sess) \<Rightarrow>
          if trim (currentMessage (ui w)) = [] \<or> conv = [] then w
          else
            let userMessage = trim (currentMessage (ui w));
                w1 = setIsLoading True (setCurrentMessage [] w);
                (thrown, w2) = send_try_ChatTsx env sess conv userMessage w1;
                w3 = (case thrown of
                        None \<Rightarrow> w2
                      | Some message \<Rightarrow>
                          toast (ascii ''Erro'')
                            (js_or message (ascii ''N'' @ [0xE3] @ ascii ''o foi poss'' @ [0xED]
                                              @ ascii ''vel enviar a mensagem''))
                            (ascii ''destructive'') w2)
            in setIsLoading False w3
      | _ \<Rightarrow> w)"

section \<open>Conversation resolution\<close>

text \<open>What the storage service answers during one resolution.\<close>

record load_env =
  conv_select_failure :: "jsstring option"
  msgs_select_failure :: "jsstring option"
  conv_insert :: "jsstring + jsstring \<times> nat"

subsection \<open>With the navigation parameter (\<^verbatim>\<open>unnamed/part_000\<close>)\<close>

text \<open>The branch of \<^verbatim>\<open>createOrLoadConversation\<close> for a conversation named in the URL.\<close>

definition load_from_url_part000 ::
  "load_env \<Rightarrow> session \<Rightarrow> jsstring \<Rightarrow> chat_screen world \<Rightarrow> jsstring option \<times> chat_screen world" where
  "load_from_url_part000 env sess conversationIdFromUrl w0 =
     (let w1 = emit (SelectConversation conversationIdFromUrl (user_id sess)) w0 in
      case select_conversation_single (conv_select_failure env) conversationIdFromUrl
             (user_id sess) (db w1) of
        Inl convError \<Rightarrow> (Some convError, w1)
      | Inr conversation \<Rightarrow>
          let w2 = setConversationTitle (js_or (c_title conversation) (ascii ''Conversa''))
                     (setCurrentConversation conversationIdFromUrl w1);
              w3 = emit (SelectMessages conversationIdFromUrl) w2
          in (case select_messages (msgs_select_failure env) conversationIdFromUrl (db w3) of
                Inl messagesError \<Rightarrow> (Some messagesError, w3)
              | Inr msgs \<Rightarrow> (None, setMessages (\<lambda>_. msgs) w3)))"

text \<open>The branch for the most recently updated conversation.\<close>

definition load_latest_part000 ::
  "load_env \<Rightarrow> session \<Rightarrow> chat_screen world \<Rightarrow> jsstring option \<times> chat_screen world" where
  "load_latest_part000 env sess w0 =
     (let w1 = emit (SelectLatestConversation (user_id sess)) w0 in
      case select_conversations (conv_select_failure env) (user_id sess) (Some 1) (db w1) of
        Inl fetchError \<Rightarrow> (Some fetchError, w1)
      | Inr conversations \<Rightarrow>
          (case conversations of
             c # _ \<Rightarrow>
               let conversationId = c_id c;
                   title = js_or (c_title c) (ascii ''Conversa'');
                   w2 = setConversationTitle title (setCurrentConversation conversationId w1);
                   w3 = emit (SelectMessages conversationId) w2
               in (case select_messages (msgs_select_failure env) conversationId (db w3) of
                     Inl messagesError \<Rightarrow> (Some messagesError, w3)
                   | Inr msgs \<Rightarrow> (None, setMessages (\<lambda>_. msgs) w3))
           | [] \<Rightarrow> (None, navigate (ascii ''/chat-history'') w1)))"

definition createOrLoadConversation_part000 ::
  "load_env \<Rightarrow> chat_screen world \<Rightarrow> chat_screen world" where
  "createOrLoadConversation_part000 env w =
     (case session (ui w) of
        None \<Rightarrow> w
      | Some sess \<Rightarrow>
          let (thrown, w1) =
                (case searchParams_conversation (ui w) of
                   Some conversationIdFromUrl \<Rightarrow>
                     if conversationIdFromUrl \<noteq> []
                     then load_from_url_part000 env sess conversationIdFromUrl w
                     else load_latest_part000 env sess w
                 | None \<Rightarrow> load_latest_part000 env sess w)
          in (case thrown of
                None \<Rightarrow> w1
              | Some _ \<Rightarrow>
                  navigate (ascii ''/chat-history'')
                    (toast (ascii ''Erro'')
                       (ascii ''N'' @ [0xE3] @ ascii ''o foi poss'' @ [0xED]
                          @ ascii ''vel carregar a conversa'')
                       (ascii ''destructive'') w1)))"

subsection \<open>Without it (\<^verbatim>\<open>src/pages/Chat.tsx\<close>)\<close>

definition load_try_ChatTsx ::
  "load_env \<Rightarrow> session \<Rightarrow> chat_screen world \<Rightarrow> jsstring option \<times> chat_screen world" where
  "load_try_ChatTsx env sess w0 =
     (let w1 = emit (SelectLatestConversation (user_id sess)) w0 in
      case select_conversations (conv_select_failure env) (user_id sess) (Some 1) (db w1) of
        Inl fetchError \<Rightarrow> (Some fetchError, w1)
      | Inr conversations \<Rightarrow>
          (case conversations of
             c # _ \<Rightarrow>
               let conversationId = c_id c;
                   w2 = setCurrentConversation conversationId w1;
                   w3 = emit (SelectMessages conversationId) w2
               in (case select_messages (msgs_select_failure env) conversationId (db w3) of
                     Inl messagesError \<Rightarrow> (Some messagesError, w3)
                   | Inr msgs \<Rightarrow> (None, setMessages (\<lambda>_. msgs) w3))
           | [] \<Rightarrow>
               let w2 = emit (InsertConversation (user_id sess) (ascii ''Nova Conversa'')) w1 in
               (case insert_conversation (conv_insert env) (user_id sess)
                       (ascii ''Nova Conversa'') (db w2) of
                  (Inl createError, d1) \<Rightarrow> (Some createError, w2\<lparr>db := d1\<rparr>)
                | (Inr newConversation, d1) \<Rightarrow>
                    (None, setMessages (\<lambda>_. [])
                             (setCurrentConversation (c_id newConversation) (w2\<lparr>db := d1\<rparr>))))))"

definition createOrLoadConversation_ChatTsx ::
  "load_env \<Rightarrow> chat_screen world \<Rightarrow> chat_screen world" where
  "createOrLoadConversation_ChatTsx env w =
     (case session (ui w) of
        None \<Rightarrow> w
      | Some sess \<Rightarrow>
          let (thrown, w1) = load_try_ChatTsx env sess w
          in (case thrown of
                None \<Rightarrow> w1
              | Some _ \<Rightarrow>
                  toast (ascii ''Erro'')
                    (ascii ''N'' @ [0xE3] @ ascii ''o foi poss'' @ [0xED]
                       @ ascii ''vel carregar a conversa'')
                    (ascii ''destructive'') w1))"

section \<open>The history screen (\<^verbatim>\<open>src/pages/ChatHistory.tsx\<close>)\<close>

text \<open>The columns the history screen selects.\<close>

record conversation_item =
  i_id :: jsstring
  i_title :: jsstring
  i_created_at :: timestamp
  i_updated_at :: timestamp

definition item_of :: "conversation_row \<Rightarrow> conversation_item" where
  "item_of c = \<lparr>i_id = c_id c, i_title = c_title c, i_created_at = c_created_at c,
                 i_updated_at = c_updated_at c\<rparr>"

record history_screen =
  h_session :: "session option"
  conversations :: "conversation_item list"
  loading :: bool

definition setConversations ::
  "conversation_item list \<Rightarrow> history_screen world \<Rightarrow> history_screen world" where
  "setConversations cs w = w\<lparr>ui := (ui w)\<lparr>conversations := cs\<rparr>\<rparr>"

definition setLoading :: "bool \<Rightarrow> history_screen world \<Rightarrow> history_screen world" where
  "setLoading b w = w\<lparr>ui := (ui w)\<lparr>loading := b\<rparr>\<rparr>"

definition loadConversations :: "jsstring option \<Rightarrow> history_screen world \<Rightarrow> history_screen world" where
  "loadConversations failure w =
     (case h_session (ui w) of
        None \<Rightarrow> w
      | Some sess \<Rightarrow>
          let w1 = emit (SelectAllConversations (user_id sess)) w;
              w2 = (case select_conversations failure (user_id sess) None (db w1) of
                      Inl error \<Rightarrow>
                        toast (ascii ''Erro'')
                          (ascii ''N'' @ [0xE3] @ ascii ''o foi poss'' @ [0xED]
                             @ ascii ''vel carregar o hist'' @ [0xF3] @ ascii ''rico'')
                          (ascii ''destructive'') w1
                    | Inr data \<Rightarrow> setConversations (map item_of data) w1)
          in setLoading False w2)"

text \<open>\<open>today\<close> is what \<^verbatim>\<open>new Date().toLocaleDateString('pt-BR')\<close> prints.\<close>

definition createNewConversation ::
  "jsstring + jsstring \<times> nat \<Rightarrow> jsstring \<Rightarrow> history_screen world \<Rightarrow> history_screen world" where
  "createNewConversation outcome today w =
     (case h_session (ui w) of
        None \<Rightarrow> w
      | Some sess \<Rightarrow>
          let title = ascii ''Nova Conversa '' @ today;
              w1 = emit (InsertConversation (user_id sess) title) w
          in (case insert_conversation outcome (user_id sess) title (db w1) of
                (Inl error, d1) \<Rightarrow>
                  toast (ascii ''Erro'')
                    (ascii ''N'' @ [0xE3] @ ascii ''o foi poss'' @ [0xED]
                       @ ascii ''vel criar nova conversa'')
                    (ascii ''destructive'') (w1\<lparr>db := d1\<rparr>)
              | (Inr data, d1) \<Rightarrow>
                  navigate (ascii ''/chat?conversation='' @ c_id data) (w1\<lparr>db := d1\<rparr>)))"

section \<open>Runs of the Chat screen\<close>

text \<open>The two variants of the Chat screen (\<^verbatim>\<open>unnamed/part_000\<close> and
  \<^verbatim>\<open>src/pages/Chat.tsx\<close>), and their operations by variant.\<close>

datatype variant = Part000 | ChatTsx

fun createOrLoadConversation :: "variant \<Rightarrow> load_env \<Rightarrow> chat_screen world \<Rightarrow> chat_screen world" where
  "createOrLoadConversation Part000 = createOrLoadConversation_part000"
| "createOrLoadConversation ChatTsx = createOrLoadConversation_ChatTsx"

fun sendMessage :: "variant \<Rightarrow> send_env \<Rightarrow> chat_screen world \<Rightarrow> chat_screen world" where
  "sendMessage Part000 = sendMessage_part000"
| "sendMessage ChatTsx = sendMessage_ChatTsx"

definition setSession :: "session option \<Rightarrow> chat_screen world \<Rightarrow> chat_screen world" where
  "setSession s w = w\<lparr>ui := (ui w)\<lparr>session := s\<rparr>\<rparr>"

text \<open>The screen as \<^verbatim>\<open>useState\<close> initialises it, opened with a given navigation parameter.\<close>

definition mounted :: "jsstring option \<Rightarrow> chat_screen" where
  "mounted param = \<lparr>session = None, messages = [], currentMessage = [], isLoading = False,
                     currentConversation = None, conversationTitle = [],
                     searchParams_conversation = param\<rparr>"

text \<open>
  The states a screen reaches: it is mounted over a storage none of whose messages is
  stamped later than the service's clock; then the session changes, the conversation is
  resolved, the user types, and messages are sent, in any order and any number of times,
  with any answers from the services.
\<close>

inductive reachable :: "variant \<Rightarrow> chat_screen world \<Rightarrow> bool" for v :: variant where
  mount: "(\<forall>m \<in> set (tbl_messages d). m_created_at m \<le> db_clock d)
            \<Longrightarrow> reachable v \<lparr>db = d, ui = mounted param, log = []\<rparr>"
| auth: "reachable v w \<Longrightarrow> reachable v (setSession s w)"
| load: "reachable v w \<Longrightarrow> reachable v (createOrLoadConversation v lenv w)"
| typed: "reachable v w \<Longrightarrow> reachable v (setCurrentMessage text w)"
| send: "reachable v w \<Longrightarrow> reachable v (sendMessage v senv w)"

text \<open>The invariant behind the order of the transcript: it is sorted by creation time,
  and neither it nor the table holds a message stamped later than the service's clock.\<close>

definition transcript_ok :: "chat_screen world \<Rightarrow> bool" where
  "transcript_ok w \<longleftrightarrow>
     sorted (map m_created_at (messages (ui w)))
     \<and> (\<forall>m \<in> set (messages (ui w)). m_created_at m \<le> db_clock (db w))
     \<and> (\<forall>m \<in> set (tbl_messages (db w)). m_created_at m \<le> db_clock (db w))"

text \<open>Recognisers for two kinds of call in the log.\<close>

fun is_user_insert :: "effect \<Rightarrow> bool" where
  "is_user_insert (InsertMessage c x r) = (r = ascii ''user'')"
| "is_user_insert _ = False"

fun is_webhook_call :: "effect \<Rightarrow> bool" where
  "is_webhook_call (PostWebhook m u c) = True"
| "is_webhook_call _ = False"

section \<open>Concrete runs\<close>

text \<open>
  The send scenario of the specification: one conversation \<open>c1\<close> of user \<open>u1\<close>, the
  input \<open>What is a good ETF?\<close> typed with blanks around it, and a webhook that answers
  \<open>Consider low-cost index funds.\<close>
\<close>

definition etf_storage :: storage where
  "etf_storage =
     \<lparr>tbl_conversations =
        [\<lparr>c_id = ascii ''c1'', c_user_id = ascii ''u1'', c_title = ascii ''Nova Conversa'',
          c_created_at = 100, c_updated_at = 100\<rparr>],
      tbl_messages = [], db_clock = 100\<rparr>"

definition etf_screen :: chat_screen where
  "etf_screen =
     \<lparr>session = Some \<lparr>user_id = ascii ''u1''\<rparr>, messages = [],
      currentMessage = ascii '' What is a good ETF? '', isLoading = False,
      currentConversation = Some (ascii ''c1''), conversationTitle = ascii ''Nova Conversa'',
      searchParams_conversation = Some (ascii ''c1'')\<rparr>"

definition etf_world :: "chat_screen world" where
  "etf_world = \<lparr>db = etf_storage, ui = etf_screen, log = []\<rparr>"

definition etf_env :: send_env where
  "etf_env =
     \<lparr>user_insert = Inr (ascii ''m1'', 5),
      webhook = FetchResponse 200 (Inr (ascii ''Consider low-cost index funds.'')),
      ai_insert = Inr (ascii ''m2'', 7),
      conv_update_failure = None,
      client_now = 115\<rparr>"

text \<open>A resolution in which every query succeeds (and a new conversation would get id \<open>c9\<close>).\<close>

definition calm_load :: load_env where
  "calm_load = \<lparr>conv_select_failure = None, msgs_select_failure = None,
                 conv_insert = Inr (ascii ''c9'', 3)\<rparr>"

text \<open>A history screen of user \<open>u1\<close> over three conversations, one of them of user \<open>u2\<close>.\<close>

definition history_storage :: storage where
  "history_storage =
     \<lparr>tbl_conversations =
        [\<lparr>c_id = ascii ''c1'', c_user_id = ascii ''u1'', c_title = ascii ''A'',
          c_created_at = 10, c_updated_at = 40\<rparr>,
         \<lparr>c_id = ascii ''c2'', c_user_id = ascii ''u2'', c_title = ascii ''B'',
          c_created_at = 20, c_updated_at = 90\<rparr>,
         \<lparr>c_id = ascii ''c3'', c_user_id = ascii ''u1'', c_title = ascii ''C'',
          c_created_at = 30, c_updated_at = 70\<rparr>],
      tbl_messages = [], db_clock = 100\<rparr>"

definition history_world :: "history_screen world" where
  "history_world =
     \<lparr>db = history_storage,
      ui = \<lparr>h_session = Some \<lparr>user_id = ascii ''u1''\<rparr>, conversations = [], loading = True\<rparr>,
      log = []\<rparr>"

text \<open>User \<open>u2\<close> opens a link to conversation \<open>c1\<close>, which belongs to \<open>u1\<close>.\<close>

definition stranger_world :: "chat_screen world" where
  "stranger_world =
     \<lparr>db = etf_storage,
      ui = (mounted (Some (ascii ''c1'')))\<lparr>session := Some \<lparr>user_id = ascii ''u2''\<rparr>\<rparr>,
      log = []\<rparr>"

text \<open>The Chat screen opened without a parameter, by \<open>u1\<close> (who owns \<open>c1\<close> and \<open>c3\<close> above)
  and by \<open>u3\<close> (who owns nothing).\<close>

definition returning_world :: "chat_screen world" where
  "returning_world =
     \<lparr>db = history_storage,
      ui = (mounted None)\<lparr>session := Some \<lparr>user_id = ascii ''u1''\<rparr>\<rparr>,
      log = []\<rparr>"

definition newcomer_world :: "chat_screen world" where
  "newcomer_world =
     \<lparr>db = history_storage,
      ui = (mounted None)\<lparr>session := Some \<lparr>user_id = ascii ''u3''\<rparr>\<rparr>,
      log = []\<rparr>"

text \<open>A whole run of the variant of \<^verbatim>\<open>unnamed/part_000\<close>: mount on \<open>c1\<close>, sign in, resolve, type, send.\<close>

definition etf_run :: "chat_screen world" where
  "etf_run =
     sendMessage Part000 etf_env
       (setCurrentMessage (ascii '' What is a good ETF? '')
          (createOrLoadConversation Part000 calm_load
             (setSession (Some \<lparr>user_id = ascii ''u1''\<rparr>)
                \<lparr>db = etf_storage, ui = mounted (Some (ascii ''c1'')), log = []\<rparr>)))"

text \<open>The history screen of \<open>u1\<close> opened over a given storage.\<close>

definition history_over :: "storage \<Rightarrow> history_screen world" where
  "history_over d =
     \<lparr>db = d,
      ui = \<lparr>h_session = Some \<lparr>user_id = ascii ''u1''\<rparr>, conversations = [], loading = True\<rparr>,
      log = []\<rparr>"

text \<open>
  The send scenario on a browser whose clock is ahead of the service's (it reads 500 where
  the service reads about 100), and on one whose clock is behind (it reads 50).
\<close>

definition fast_clock_env :: send_env where
  "fast_clock_env = etf_env\<lparr>client_now := 500\<rparr>"

definition slow_clock_env :: send_env where
  "slow_clock_env = etf_env\<lparr>client_now := 50\<rparr>"

section \<open>Auxiliary facts\<close>

lemmas screen_defs = emit_def toast_def navigate_def setMessages_def setCurrentMessage_def
  setIsLoading_def setCurrentConversation_def setConversationTitle_def

lemmas send_defs = sendMessage_ChatTsx_def send_try_ChatTsx_def sendMessage_part000_def
  send_try_part000_def insert_message_def update_conversation_def

lemmas load_defs = createOrLoadConversation_part000_def load_from_url_part000_def
  load_latest_part000_def createOrLoadConversation_ChatTsx_def load_try_ChatTsx_def

lemmas history_defs = loadConversations_def createNewConversation_def setConversations_def
  setLoading_def

lemmas run_defs = etf_storage_def etf_screen_def etf_world_def etf_env_def calm_load_def
  history_storage_def history_world_def stranger_world_def returning_world_def
  newcomer_world_def mounted_def
  history_over_def fast_clock_env_def slow_clock_env_def

lemmas string_defs = ascii_def trim_def is_js_whitespace_def js_or_def response_ok_def

lemma trim_Nil [simp]: "trim [] = []"
  by (simp add: trim_def)

lemma role_neq [simp]: "ascii ''assistant'' \<noteq> ascii ''user''"
  by (simp add: ascii_def)

lemma etf_input_trimmed:
  "trim (ascii '' What is a good ETF? '') = ascii ''What is a good ETF?''"
  by (simp add: string_defs)

subsection \<open>The ordered selects\<close>

lemma sort_key_last_greatest:
  assumes "x \<in> set xs"
  shows "f x \<le> f (last (sort_key f xs))"
proof -
  define ys where "ys = sort_key f xs"
  have mem: "x \<in> set ys" using assms by (simp add: ys_def)
  then have "ys \<noteq> []" by (cases ys) simp_all
  then have split: "ys = butlast ys @ [last ys]" by simp
  have "sorted_wrt (\<lambda>a b. f a \<le> f b) ys"
    using sorted_sort_key [of f xs] by (simp add: ys_def sorted_map)
  then have "sorted_wrt (\<lambda>a b. f a \<le> f b) (butlast ys @ [last ys])"
    using split by simp
  then have "\<forall>a \<in> set (butlast ys). f a \<le> f (last ys)"
    by (simp add: sorted_wrt_append)
  moreover have "x \<in> set (butlast ys) \<or> x = last ys"
  proof -
    have "x \<in> set (butlast ys @ [last ys])" using mem split by simp
    then show ?thesis by auto
  qed
  ultimately show ?thesis by (auto simp add: ys_def)
qed

lemma newest_first:
  assumes "c \<in> set xs" and "\<forall>c' \<in> set xs. c' \<noteq> c \<longrightarrow> f c' < (f c :: nat)"
  shows "rev (sort_key f xs) \<noteq> [] \<and> hd (rev (sort_key f xs)) = c"
proof -
  define l where "l = last (sort_key f xs)"
  have "c \<in> set (sort_key f xs)" using assms(1) by simp
  then have ne: "sort_key f xs \<noteq> []" by (cases "sort_key f xs") simp_all
  then have "l \<in> set (sort_key f xs)" unfolding l_def by (rule last_in_set)
  then have l_mem: "l \<in> set xs" by simp
  have "f c \<le> f l" unfolding l_def using assms(1) by (rule sort_key_last_greatest)
  then have "l = c" using assms(2) l_mem by fastforce
  then show ?thesis using ne by (simp add: hd_rev l_def)
qed


lemma latest_cases:
  assumes "select_conversations None u (Some 1) d = Inr cs"
  shows "(cs = [] \<and> (\<forall>c \<in> set (tbl_conversations d). c_user_id c \<noteq> u))
       \<or> (\<exists>c. cs = [c] \<and> c \<in> set (tbl_conversations d) \<and> c_user_id c = u
              \<and> (\<forall>c' \<in> set (tbl_conversations d).
                    c_user_id c' = u \<longrightarrow> c_updated_at c' \<le> c_updated_at c))"
proof -
  define xs where "xs = filter (\<lambda>c. c_user_id c = u) (tbl_conversations d)"
  define ys where "ys = sort_key c_updated_at xs"
  have cs: "cs = take 1 (rev ys)"
    using assms by (simp add: select_conversations_def xs_def ys_def)
  have set_ys: "set ys = set xs" by (simp add: ys_def)
  show ?thesis
  proof (cases "xs = []")
    case True
    then have "ys = []" by (simp add: ys_def)
    moreover have "\<forall>c \<in> set (tbl_conversations d). c_user_id c \<noteq> u"
      using True by (auto simp add: xs_def filter_empty_conv)
    ultimately show ?thesis using cs by simp
  next
    case False
    then have ne: "ys \<noteq> []" using set_ys by auto
    then have "take 1 (rev ys) = [hd (rev ys)]"
      by (cases "rev ys") simp_all
    then have c1: "cs = [last ys]" using cs by (simp add: hd_rev)
    have mem: "last ys \<in> set xs" using ne set_ys last_in_set by blast
    have "\<forall>c' \<in> set xs. c_updated_at c' \<le> c_updated_at (last ys)"
      using sort_key_last_greatest [of _ xs c_updated_at] by (simp add: ys_def)
    then show ?thesis using c1 mem by (auto simp add: xs_def)
  qed
qed

lemma select_single_none:
  assumes "\<forall>c \<in> set (tbl_conversations d). c_id c = cid \<longrightarrow> c_user_id c \<noteq> u"
  shows "\<exists>err. select_conversation_single failure cid u d = Inl err"
proof -
  have "filter (\<lambda>c. c_id c = cid \<and> c_user_id c = u) (tbl_conversations d) = []"
    using assms by (auto simp add: filter_empty_conv)
  then show ?thesis
    by (simp add: select_conversation_single_def split: option.splits)
qed

subsection \<open>Resolution by most recent update\<close>

lemma load_latest_part000_empty:
  assumes "conv_select_failure env = None"
    and "\<forall>c \<in> set (tbl_conversations (db w)). c_user_id c \<noteq> user_id sess"
  shows "load_latest_part000 env sess w =
           (None, w\<lparr>log := log w @ [SelectLatestConversation (user_id sess),
                                     Navigate (ascii ''/chat-history'')]\<rparr>)"
proof -
  obtain cs where cs: "select_conversations None (user_id sess) (Some 1) (db w) = Inr cs"
    by (simp add: select_conversations_def)
  then have "cs = []" using latest_cases [OF cs] assms(2) by auto
  then show ?thesis using cs assms(1)
    by (simp add: load_latest_part000_def screen_defs)
qed

lemma load_try_ChatTsx_empty:
  assumes "conv_select_failure env = None"
    and "\<forall>c \<in> set (tbl_conversations (db w)). c_user_id c \<noteq> user_id sess"
    and "conv_insert env = Inr (new_id, elapsed)"
  shows "load_try_ChatTsx env sess w =
           (None, w\<lparr>db := (db w)\<lparr>tbl_conversations := tbl_conversations (db w) @
                        [\<lparr>c_id = new_id, c_user_id = user_id sess, c_title = ascii ''Nova Conversa'',
                          c_created_at = db_clock (db w) + elapsed,
                          c_updated_at = db_clock (db w) + elapsed\<rparr>],
                        db_clock := db_clock (db w) + elapsed\<rparr>,
                    ui := (ui w)\<lparr>currentConversation := Some new_id, messages := []\<rparr>,
                    log := log w @ [SelectLatestConversation (user_id sess),
                                    InsertConversation (user_id sess) (ascii ''Nova Conversa'')]\<rparr>)"
proof -
  obtain cs where cs: "select_conversations None (user_id sess) (Some 1) (db w) = Inr cs"
    by (simp add: select_conversations_def)
  then have "cs = []" using latest_cases [OF cs] assms(2) by auto
  then show ?thesis using cs assms(1,3)
    by (simp add: load_try_ChatTsx_def screen_defs insert_conversation_def Let_def)
qed

lemma load_latest_part000_found:
  assumes "conv_select_failure env = None"
    and "\<exists>c \<in> set (tbl_conversations (db w)). c_user_id c = user_id sess"
  shows "\<exists>c thrown w'. load_latest_part000 env sess w = (thrown, w')
           \<and> c \<in> set (tbl_conversations (db w)) \<and> c_user_id c = user_id sess
           \<and> (\<forall>c' \<in> set (tbl_conversations (db w)).
                 c_user_id c' = user_id sess \<longrightarrow> c_updated_at c' \<le> c_updated_at c)
           \<and> currentConversation (ui w') = Some (c_id c) \<and> db w' = db w
           \<and> (\<exists>rest. log w' = log w @ SelectLatestConversation (user_id sess)
                                      # SelectMessages (c_id c) # rest)"
proof -
  obtain cs where cs: "select_conversations None (user_id sess) (Some 1) (db w) = Inr cs"
    by (simp add: select_conversations_def)
  from latest_cases [OF cs] assms(2) obtain c where c: "cs = [c]"
    "c \<in> set (tbl_conversations (db w))" "c_user_id c = user_id sess"
    "\<forall>c' \<in> set (tbl_conversations (db w)).
        c_user_id c' = user_id sess \<longrightarrow> c_updated_at c' \<le> c_updated_at c"
    by auto
  show ?thesis
    using cs c assms(1)
    by (cases "select_messages (msgs_select_failure env) (c_id c) (db w)")
       (auto simp add: load_latest_part000_def screen_defs Let_def)
qed

lemma load_try_ChatTsx_found:
  assumes "conv_select_failure env = None"
    and "\<exists>c \<in> set (tbl_conversations (db w)). c_user_id c = user_id sess"
  shows "\<exists>c thrown w'. load_try_ChatTsx env sess w = (thrown, w')
           \<and> c \<in> set (tbl_conversations (db w)) \<and> c_user_id c = user_id sess
           \<and> (\<forall>c' \<in> set (tbl_conversations (db w)).
                 c_user_id c' = user_id sess \<longrightarrow> c_updated_at c' \<le> c_updated_at c)
           \<and> currentConversation (ui w') = Some (c_id c) \<and> db w' = db w
           \<and> (\<exists>rest. log w' = log w @ SelectLatestConversation (user_id sess)
                                      # SelectMessages (c_id c) # rest)"
proof -
  obtain cs where cs: "select_conversations None (user_id sess) (Some 1) (db w) = Inr cs"
    by (simp add: select_conversations_def)
  from latest_cases [OF cs] assms(2) obtain c where c: "cs = [c]"
    "c \<in> set (tbl_conversations (db w))" "c_user_id c = user_id sess"
    "\<forall>c' \<in> set (tbl_conversations (db w)).
        c_user_id c' = user_id sess \<longrightarrow> c_updated_at c' \<le> c_updated_at c"
    by auto
  show ?thesis
    using cs c assms(1)
    by (cases "select_messages (msgs_select_failure env) (c_id c) (db w)")
       (auto simp add: load_try_ChatTsx_def screen_defs Let_def)
qed

subsection \<open>The transcript invariant is kept by every operation\<close>

lemma transcript_ok_send_part000:
  "transcript_ok w \<Longrightarrow> transcript_ok (sendMessage_part000 env w)"
  unfolding transcript_ok_def
  by (auto simp add: send_defs screen_defs Let_def sorted_append
      split: option.splits sum.splits fetch_outcome.splits prod.splits)

lemma transcript_ok_send_ChatTsx:
  "transcript_ok w \<Longrightarrow> transcript_ok (sendMessage_ChatTsx env w)"
  unfolding transcript_ok_def
  by (auto simp add: send_defs screen_defs Let_def sorted_append
      split: option.splits sum.splits fetch_outcome.splits prod.splits)

lemma transcript_ok_load_part000:
  "transcript_ok w \<Longrightarrow> transcript_ok (createOrLoadConversation_part000 env w)"
  unfolding transcript_ok_def
  by (auto simp add: load_defs screen_defs Let_def select_messages_def
      split: option.splits sum.splits list.splits prod.splits)

lemma transcript_ok_load_ChatTsx:
  "transcript_ok w \<Longrightarrow> transcript_ok (createOrLoadConversation_ChatTsx env w)"
  unfolding transcript_ok_def
  by (auto simp add: load_defs screen_defs Let_def select_messages_def insert_conversation_def
      split: option.splits sum.splits list.splits prod.splits)

lemma reachable_transcript_ok: "reachable v w \<Longrightarrow> transcript_ok w"
proof (induction rule: reachable.induct)
  case (mount d param)
  then show ?case by (simp add: transcript_ok_def mounted_def)
next
  case (auth w s)
  then show ?case by (simp add: transcript_ok_def setSession_def)
next
  case (load w lenv)
  show ?case
  proof (cases v)
    case Part000
    then show ?thesis using load.IH by (simp add: transcript_ok_load_part000)
  next
    case ChatTsx
    then show ?thesis using load.IH by (simp add: transcript_ok_load_ChatTsx)
  qed
next
  case (typed w input)
  then show ?case by (simp add: transcript_ok_def setCurrentMessage_def)
next
  case (send w senv)
  show ?case
  proof (cases v)
    case Part000
    then show ?thesis using send.IH by (simp add: transcript_ok_send_part000)
  next
    case ChatTsx
    then show ?thesis using send.IH by (simp add: transcript_ok_send_ChatTsx)
  qed
qed

subsection \<open>What the history screen shows\<close>

lemma loadConversations_shown:
  assumes "h_session (ui w) = Some sess"
  shows "conversations (ui (loadConversations None w)) =
           map item_of (rev (sort_key c_updated_at
             (filter (\<lambda>c. c_user_id c = user_id sess) (tbl_conversations (db w)))))"
    and "log (loadConversations None w) = log w @ [SelectAllConversations (user_id sess)]"
  using assms
  by (simp_all add: history_defs select_conversations_def emit_def Let_def)

lemma newest_listed_first:
  assumes "h_session (ui w) = Some sess"
    and "c \<in> set (tbl_conversations (db w))" and "c_user_id c = user_id sess"
    and "\<forall>c' \<in> set (tbl_conversations (db w)).
            c_user_id c' = user_id sess \<and> c' \<noteq> c \<longrightarrow> c_updated_at c' < c_updated_at c"
  shows "conversations (ui (loadConversations None w)) \<noteq> []
       \<and> hd (conversations (ui (loadConversations None w))) = item_of c"
proof -
  define xs where "xs = filter (\<lambda>c. c_user_id c = user_id sess) (tbl_conversations (db w))"
  have "c \<in> set xs" using assms(2,3) by (simp add: xs_def)
  moreover have "\<forall>c' \<in> set xs. c' \<noteq> c \<longrightarrow> c_updated_at c' < c_updated_at c"
    using assms(4) by (simp add: xs_def)
  ultimately have "rev (sort_key c_updated_at xs) \<noteq> [] \<and> hd (rev (sort_key c_updated_at xs)) = c"
    by (rule newest_first)
  then show ?thesis
    using loadConversations_shown(1) [OF assms(1)] by (simp add: xs_def hd_map)
qed

lemma created_listed_first:
  assumes "h_session (ui w) = Some sess"
    and "\<forall>c \<in> set (tbl_conversations (db w)).
            c_user_id c = user_id sess \<longrightarrow> c_updated_at c < db_clock (db w) + elapsed"
  shows "conversations (ui (loadConversations None
            (createNewConversation (Inr (new_id, elapsed)) today w))) \<noteq> []
       \<and> hd (conversations (ui (loadConversations None
            (createNewConversation (Inr (new_id, elapsed)) today w)))) =
           item_of \<lparr>c_id = new_id, c_user_id = user_id sess,
                    c_title = ascii ''Nova Conversa '' @ today,
                    c_created_at = db_clock (db w) + elapsed,
                    c_updated_at = db_clock (db w) + elapsed\<rparr>"
proof -
  define row where "row = \<lparr>c_id = new_id, c_user_id = user_id sess,
                    c_title = ascii ''Nova Conversa '' @ today,
                    c_created_at = db_clock (db w) + elapsed,
                    c_updated_at = db_clock (db w) + elapsed\<rparr>"
  define w' where "w' = createNewConversation (Inr (new_id, elapsed)) today w"
  have sess': "h_session (ui w') = Some sess"
    using assms(1)
    by (simp add: w'_def createNewConversation_def insert_conversation_def screen_defs Let_def)
  have tbl': "tbl_conversations (db w') = tbl_conversations (db w) @ [row]"
    using assms(1)
    by (simp add: w'_def row_def createNewConversation_def insert_conversation_def screen_defs Let_def)
  have "row \<in> set (tbl_conversations (db w'))" by (simp add: tbl')
  moreover have "c_user_id row = user_id sess" by (simp add: row_def)
  moreover have "\<forall>c' \<in> set (tbl_conversations (db w')).
            c_user_id c' = user_id sess \<and> c' \<noteq> row \<longrightarrow> c_updated_at c' < c_updated_at row"
    using assms(2) by (auto simp add: tbl' row_def)
  ultimately show ?thesis
    using newest_listed_first [OF sess'] unfolding w'_def row_def by blast
qed

subsection \<open>The variant of \<^verbatim>\<open>unnamed/part_000\<close> rejects a blank reply\<close>

lemma part000_rejects_blank_reply:
  assumes "currentConversation (ui w) = Some conv" and "conv \<noteq> []"
    and "session (ui w) = Some sess"
    and "trim (currentMessage (ui w)) = input" and "input \<noteq> []"
    and "user_insert env = Inr (new_id, elapsed)"
    and "webhook env = FetchResponse status (Inr body)" and "response_ok status"
    and "trim body = []"
  shows "tbl_messages (db (sendMessage_part000 env w)) = tbl_messages (db w) @
            [\<lparr>m_id = new_id, m_conversation_id = conv, m_content = input,
              m_role = ascii ''user'', m_created_at = db_clock (db w) + elapsed\<rparr>]
       \<and> tbl_conversations (db (sendMessage_part000 env w)) = tbl_conversations (db w)
       \<and> log (sendMessage_part000 env w) = log w @
            [InsertMessage conv input (ascii ''user''),
             PostWebhook input (user_id sess) conv,
             Toast (ascii ''Erro'') (ascii ''Resposta vazia do agente IA'') (ascii ''destructive'')]"
  using assms
  by (auto simp add: send_defs screen_defs Let_def js_or_def ascii_def)

section \<open>The claims\<close>

text \<open>
  C1. For an input that is non-empty after trimming, with an active conversation and a
  session, a send in which every step succeeds appends exactly two messages to the
  conversation, in storage and in the transcript: first one with role \<open>user\<close> whose
  content is the trimmed input, then one with role \<open>assistant\<close> whose content is the
  webhook's response body; then it sets the conversation's \<open>updated_at\<close> to the client's
  current time. The log gives the order of the four calls. (In the variant of \<^verbatim>\<open>unnamed/part_000\<close> a
  successful send needs a reply that is not blank.)
\<close>

theorem send_appends_user_then_assistant:
  assumes "currentConversation (ui w) = Some conv" and "conv \<noteq> []"
    and "session (ui w) = Some sess"
    and "trim (currentMessage (ui w)) \<noteq> []"
    and "user_insert env = Inr (user_msg_id, e1)"
    and "webhook env = FetchResponse status (Inr body)" and "response_ok status"
    and "ai_insert env = Inr (ai_msg_id, e2)"
    and "conv_update_failure env = None"
    and "send = sendMessage_ChatTsx \<or> send = sendMessage_part000 \<and> trim body \<noteq> []"
  shows "\<exists>u a.
      m_role u = ascii ''user'' \<and> m_content u = trim (currentMessage (ui w))
    \<and> m_conversation_id u = conv
    \<and> m_role a = ascii ''assistant'' \<and> m_content a = body \<and> m_conversation_id a = conv
    \<and> tbl_messages (db (send env w)) = tbl_messages (db w) @ [u, a]
    \<and> messages (ui (send env w)) = messages (ui w) @ [u, a]
    \<and> tbl_conversations (db (send env w)) =
         map (\<lambda>c. if c_id c = conv then c\<lparr>c_updated_at := client_now env\<rparr> else c)
           (tbl_conversations (db w))
    \<and> log (send env w) = log w @
         [InsertMessage conv (trim (currentMessage (ui w))) (ascii ''user''),
          PostWebhook (trim (currentMessage (ui w))) (user_id sess) conv,
          InsertMessage conv body (ascii ''assistant''),
          UpdateConversation conv (client_now env)]"
  using assms
  by (auto simp add: send_defs screen_defs Let_def)

theorem send_appends_user_then_assistant_witness:
  "currentConversation (ui etf_world) = Some (ascii ''c1'') \<and> ascii ''c1'' \<noteq> []
   \<and> session (ui etf_world) = Some \<lparr>user_id = ascii ''u1''\<rparr>
   \<and> trim (currentMessage (ui etf_world)) \<noteq> []
   \<and> user_insert etf_env = Inr (ascii ''m1'', 5)
   \<and> webhook etf_env = FetchResponse 200 (Inr (ascii ''Consider low-cost index funds.''))
   \<and> response_ok 200
   \<and> ai_insert etf_env = Inr (ascii ''m2'', 7)
   \<and> conv_update_failure etf_env = None
   \<and> trim (ascii ''Consider low-cost index funds.'') \<noteq> []
   \<and> (\<exists>u a.
        m_role u = ascii ''user'' \<and> m_content u = ascii ''What is a good ETF?''
      \<and> m_role a = ascii ''assistant'' \<and> m_content a = ascii ''Consider low-cost index funds.''
      \<and> tbl_messages (db (sendMessage_part000 etf_env etf_world)) = [u, a]
      \<and> messages (ui (sendMessage_part000 etf_env etf_world)) = [u, a])
   \<and> map c_updated_at (tbl_conversations (db (sendMessage_part000 etf_env etf_world))) = [115]"
proof -
  have h: "currentConversation (ui etf_world) = Some (ascii ''c1'')" "ascii ''c1'' \<noteq> []"
    "session (ui etf_world) = Some \<lparr>user_id = ascii ''u1''\<rparr>"
    "trim (currentMessage (ui etf_world)) \<noteq> []"
    "user_insert etf_env = Inr (ascii ''m1'', 5)"
    "webhook etf_env = FetchResponse 200 (Inr (ascii ''Consider low-cost index funds.''))"
    "response_ok 200"
    "ai_insert etf_env = Inr (ascii ''m2'', 7)"
    "conv_update_failure etf_env = None"
    by (simp_all add: run_defs string_defs)
  have t: "trim (ascii ''Consider low-cost index funds.'') \<noteq> []"
    by (simp add: string_defs)
  have s: "sendMessage_part000 = sendMessage_ChatTsx \<or>
        sendMessage_part000 = sendMessage_part000 \<and> trim (ascii ''Consider low-cost index funds.'') \<noteq> []"
    using t by simp
  have i: "trim (currentMessage (ui etf_world)) = ascii ''What is a good ETF?''"
    using etf_input_trimmed by (simp add: run_defs)
  have c: "tbl_conversations (db etf_world) =
        [\<lparr>c_id = ascii ''c1'', c_user_id = ascii ''u1'', c_title = ascii ''Nova Conversa'',
          c_created_at = 100, c_updated_at = 100\<rparr>]"
       "tbl_messages (db etf_world) = []" "messages (ui etf_world) = []" "client_now etf_env = 115"
    by (simp_all add: run_defs)
  from send_appends_user_then_assistant [OF h s] obtain u a where
    "m_role u = ascii ''user''" "m_content u = ascii ''What is a good ETF?''"
    "m_role a = ascii ''assistant''" "m_content a = ascii ''Consider low-cost index funds.''"
    "tbl_messages (db (sendMessage_part000 etf_env etf_world)) = [u, a]"
    "messages (ui (sendMessage_part000 etf_env etf_world)) = [u, a]"
    "map c_updated_at (tbl_conversations (db (sendMessage_part000 etf_env etf_world))) = [115]"
    unfolding i c by auto
  then show ?thesis using h t by blast
qed

text \<open>
  C2. For every input that is non-empty after trimming and accepted by the send (an
  active conversation, a session), the first call of the send is the insert of the user
  message, and it is the only insert of a user message. If that insert fails, the webhook
  is not called and storage keeps no new message. If it succeeds, the webhook call comes
  directly after it, exactly once, and the user message is in storage: the stored
  messages of before, then the user message, then whatever the send stores later.
\<close>

theorem user_message_stored_before_webhook:
  assumes "currentConversation (ui w) = Some conv" and "conv \<noteq> []"
    and "session (ui w) = Some sess"
    and "trim (currentMessage (ui w)) = input" and "input \<noteq> []"
    and "send = sendMessage_ChatTsx \<or> send = sendMessage_part000"
  shows "\<exists>rest. log (send env w) = log w @ InsertMessage conv input (ascii ''user'') # rest
           \<and> \<not> list_ex is_user_insert rest
           \<and> (case user_insert env of
                 Inl err \<Rightarrow> \<not> list_ex is_webhook_call rest
                           \<and> tbl_messages (db (send env w)) = tbl_messages (db w)
               | Inr (new_id, elapsed) \<Rightarrow>
                   (\<exists>rest'. rest = PostWebhook input (user_id sess) conv # rest'
                        \<and> \<not> list_ex is_webhook_call rest'
                        \<and> (\<exists>later. tbl_messages (db (send env w)) =
                              tbl_messages (db w) @
                                \<lparr>m_id = new_id, m_conversation_id = conv, m_content = input,
                                  m_role = ascii ''user'',
                                  m_created_at = db_clock (db w) + elapsed\<rparr> # later)))"
  using assms
  by (auto simp add: send_defs screen_defs Let_def
      split: sum.splits fetch_outcome.splits prod.splits option.splits)

theorem user_message_stored_before_webhook_witness:
  "currentConversation (ui etf_world) = Some (ascii ''c1'') \<and> ascii ''c1'' \<noteq> []
   \<and> session (ui etf_world) = Some \<lparr>user_id = ascii ''u1''\<rparr>
   \<and> trim (currentMessage (ui etf_world)) = ascii ''What is a good ETF?''
   \<and> ascii ''What is a good ETF?'' \<noteq> []
   \<and> take 2 (log (sendMessage_part000 etf_env etf_world)) =
        [InsertMessage (ascii ''c1'') (ascii ''What is a good ETF?'') (ascii ''user''),
         PostWebhook (ascii ''What is a good ETF?'') (ascii ''u1'') (ascii ''c1'')]
   \<and> map m_id (tbl_messages (db (sendMessage_part000 etf_env etf_world))) = [ascii ''m1'', ascii ''m2'']
   \<and> log (sendMessage_ChatTsx (etf_env\<lparr>user_insert := Inl (ascii ''denied'')\<rparr>) etf_world) =
        [InsertMessage (ascii ''c1'') (ascii ''What is a good ETF?'') (ascii ''user''),
         Toast (ascii ''Erro'') (ascii ''denied'') (ascii ''destructive'')]
   \<and> tbl_messages (db (sendMessage_ChatTsx (etf_env\<lparr>user_insert := Inl (ascii ''denied'')\<rparr>) etf_world)) = []"
  using user_message_stored_before_webhook
          [of etf_world "ascii ''c1''" "\<lparr>user_id = ascii ''u1''\<rparr>" "ascii ''What is a good ETF?''"
              sendMessage_part000 etf_env]
        user_message_stored_before_webhook
          [of etf_world "ascii ''c1''" "\<lparr>user_id = ascii ''u1''\<rparr>" "ascii ''What is a good ETF?''"
              sendMessage_ChatTsx "etf_env\<lparr>user_insert := Inl (ascii ''denied'')\<rparr>"]
  by (simp add: run_defs send_defs screen_defs string_defs Let_def)

text \<open>
  C3. If the webhook answers with a status outside 200..299, the send inserts no assistant
  message and issues no update of \<open>updated_at\<close>; the user message inserted before remains
  in storage, and no call after the webhook undoes it: the log ends with the error
  notification.
\<close>

theorem bad_status_keeps_only_user_message:
  assumes "currentConversation (ui w) = Some conv" and "conv \<noteq> []"
    and "session (ui w) = Some sess"
    and "trim (currentMessage (ui w)) = input" and "input \<noteq> []"
    and "user_insert env = Inr (new_id, elapsed)"
    and "webhook env = FetchResponse status body" and "\<not> response_ok status"
    and "send = sendMessage_ChatTsx \<or> send = sendMessage_part000"
  shows "tbl_messages (db (send env w)) = tbl_messages (db w) @
            [\<lparr>m_id = new_id, m_conversation_id = conv, m_content = input,
              m_role = ascii ''user'', m_created_at = db_clock (db w) + elapsed\<rparr>]
       \<and> tbl_conversations (db (send env w)) = tbl_conversations (db w)
       \<and> (\<exists>description. log (send env w) = log w @
            [InsertMessage conv input (ascii ''user''),
             PostWebhook input (user_id sess) conv,
             Toast (ascii ''Erro'') description (ascii ''destructive'')])"
  using assms
  by (auto simp add: send_defs screen_defs Let_def)

theorem bad_status_keeps_only_user_message_witness:
  "currentConversation (ui etf_world) = Some (ascii ''c1'') \<and> ascii ''c1'' \<noteq> []
   \<and> session (ui etf_world) = Some \<lparr>user_id = ascii ''u1''\<rparr>
   \<and> trim (currentMessage (ui etf_world)) = ascii ''What is a good ETF?''
   \<and> ascii ''What is a good ETF?'' \<noteq> []
   \<and> user_insert (etf_env\<lparr>webhook := FetchResponse 503 (Inr (ascii ''busy''))\<rparr>) = Inr (ascii ''m1'', 5)
   \<and> \<not> response_ok 503
   \<and> tbl_messages (db (sendMessage_part000
          (etf_env\<lparr>webhook := FetchResponse 503 (Inr (ascii ''busy''))\<rparr>) etf_world)) =
        [\<lparr>m_id = ascii ''m1'', m_conversation_id = ascii ''c1'',
          m_content = ascii ''What is a good ETF?'', m_role = ascii ''user'', m_created_at = 105\<rparr>]
   \<and> tbl_conversations (db (sendMessage_part000
          (etf_env\<lparr>webhook := FetchResponse 503 (Inr (ascii ''busy''))\<rparr>) etf_world)) =
        tbl_conversations (db etf_world)
   \<and> log (sendMessage_part000
          (etf_env\<lparr>webhook := FetchResponse 503 (Inr (ascii ''busy''))\<rparr>) etf_world) =
        [InsertMessage (ascii ''c1'') (ascii ''What is a good ETF?'') (ascii ''user''),
         PostWebhook (ascii ''What is a good ETF?'') (ascii ''u1'') (ascii ''c1''),
         Toast (ascii ''Erro'')
           (ascii ''Erro na comunica'' @ [0xE7, 0xE3] @ ascii ''o com o agente: 503'')
           (ascii ''destructive'')]"
  using bad_status_keeps_only_user_message
          [of etf_world "ascii ''c1''" "\<lparr>user_id = ascii ''u1''\<rparr>" "ascii ''What is a good ETF?''"
              "etf_env\<lparr>webhook := FetchResponse 503 (Inr (ascii ''busy''))\<rparr>" "ascii ''m1''" 5
              503 "Inr (ascii ''busy'')" sendMessage_part000]
  by (simp add: run_defs send_defs screen_defs string_defs Let_def decimal.simps)

text \<open>
  C4. The claim: a 2xx answer with an empty body fails like a bad status (no assistant
  message, no refresh of \<open>updated_at\<close>, an error shown, the user message kept). The
  screen of \<^verbatim>\<open>src/pages/Chat.tsx\<close> does not do this: in the scenario with the answer
  200 and an empty body it stores an assistant message with empty content, refreshes
  \<open>updated_at\<close>, and shows no notification. (The variant of \<^verbatim>\<open>unnamed/part_000\<close> does reject the reply, as
  the lemma on blank replies above shows.)
\<close>

theorem ChatTsx_stores_empty_reply:
  "log (sendMessage_ChatTsx (etf_env\<lparr>webhook := FetchResponse 200 (Inr [])\<rparr>) etf_world) =
     [InsertMessage (ascii ''c1'') (ascii ''What is a good ETF?'') (ascii ''user''),
      PostWebhook (ascii ''What is a good ETF?'') (ascii ''u1'') (ascii ''c1''),
      InsertMessage (ascii ''c1'') [] (ascii ''assistant''),
      UpdateConversation (ascii ''c1'') 115]
   \<and> tbl_messages (db (sendMessage_ChatTsx (etf_env\<lparr>webhook := FetchResponse 200 (Inr [])\<rparr>) etf_world)) =
     [\<lparr>m_id = ascii ''m1'', m_conversation_id = ascii ''c1'',
       m_content = ascii ''What is a good ETF?'', m_role = ascii ''user'', m_created_at = 105\<rparr>,
      \<lparr>m_id = ascii ''m2'', m_conversation_id = ascii ''c1'',
       m_content = [], m_role = ascii ''assistant'', m_created_at = 112\<rparr>]
   \<and> map c_updated_at (tbl_conversations (db (sendMessage_ChatTsx
         (etf_env\<lparr>webhook := FetchResponse 200 (Inr [])\<rparr>) etf_world))) = [115]"
  by (simp add: run_defs send_defs screen_defs string_defs Let_def)

text \<open>
  C5. When the navigation parameter names a conversation, the Chat screen (the variant
  that reads the parameter) first fetches the conversation with that id and the session
  user as owner. If storage holds no such row, the resolution fails: the error
  notification is shown, the user is sent to the history screen, and nothing else
  happens; no message is fetched and the screen's state, transcript included, is as
  before.
\<close>

theorem missing_conversation_redirects:
  assumes "session (ui w) = Some sess"
    and "searchParams_conversation (ui w) = Some cid" and "cid \<noteq> []"
  shows "(\<exists>rest. log (createOrLoadConversation_part000 env w) =
             log w @ SelectConversation cid (user_id sess) # rest)
       \<and> ((\<forall>c \<in> set (tbl_conversations (db w)). c_id c = cid \<longrightarrow> c_user_id c \<noteq> user_id sess) \<longrightarrow>
            createOrLoadConversation_part000 env w =
              w\<lparr>log := log w @
                   [SelectConversation cid (user_id sess),
                    Toast (ascii ''Erro'')
                      (ascii ''N'' @ [0xE3] @ ascii ''o foi poss'' @ [0xED]
                         @ ascii ''vel carregar a conversa'')
                      (ascii ''destructive''),
                    Navigate (ascii ''/chat-history'')]\<rparr>)"
proof (intro conjI impI)
  show "\<exists>rest. log (createOrLoadConversation_part000 env w) =
             log w @ SelectConversation cid (user_id sess) # rest"
    using assms
    by (auto simp add: load_defs screen_defs Let_def split: sum.splits option.splits prod.splits)
next
  assume "\<forall>c \<in> set (tbl_conversations (db w)). c_id c = cid \<longrightarrow> c_user_id c \<noteq> user_id sess"
  then obtain err where
    "select_conversation_single (conv_select_failure env) cid (user_id sess) (db w) = Inl err"
    using select_single_none by blast
  then show "createOrLoadConversation_part000 env w =
              w\<lparr>log := log w @
                   [SelectConversation cid (user_id sess),
                    Toast (ascii ''Erro'')
                      (ascii ''N'' @ [0xE3] @ ascii ''o foi poss'' @ [0xED]
                         @ ascii ''vel carregar a conversa'')
                      (ascii ''destructive''),
                    Navigate (ascii ''/chat-history'')]\<rparr>"
    using assms by (simp add: load_defs screen_defs Let_def)
qed

theorem missing_conversation_redirects_witness:
  "session (ui stranger_world) = Some \<lparr>user_id = ascii ''u2''\<rparr>
   \<and> searchParams_conversation (ui stranger_world) = Some (ascii ''c1'')
   \<and> ascii ''c1'' \<noteq> []
   \<and> createOrLoadConversation_part000 calm_load stranger_world =
      stranger_world
        \<lparr>log := [SelectConversation (ascii ''c1'') (ascii ''u2''),
                 Toast (ascii ''Erro'')
                   (ascii ''N'' @ [0xE3] @ ascii ''o foi poss'' @ [0xED]
                      @ ascii ''vel carregar a conversa'')
                   (ascii ''destructive''),
                 Navigate (ascii ''/chat-history'')]\<rparr>"
  using missing_conversation_redirects
          [of stranger_world "\<lparr>user_id = ascii ''u2''\<rparr>" "ascii ''c1''" calm_load]
  by (simp add: run_defs string_defs)

text \<open>
  C6. When the navigation parameter names no conversation, the resolution first fetches
  the session user's conversations by \<open>updated_at\<close> descending, limited to one. If the user
  has conversations, the active conversation becomes one of the user's own with maximal
  \<open>updated_at\<close>, its messages are fetched next, and storage is unchanged. If the user has
  none, the variant of \<^verbatim>\<open>unnamed/part_000\<close> only navigates to the history screen and
  creates nothing; the variant of \<^verbatim>\<open>src/pages/Chat.tsx\<close> inserts a conversation titled \<open>Nova Conversa\<close> for
  the session user, makes it the active one and empties the transcript.
\<close>

theorem latest_or_fresh_conversation:
  assumes "session (ui w) = Some sess"
    and "conv_select_failure env = None"
  shows "(searchParams_conversation (ui w) = None \<or> searchParams_conversation (ui w) = Some [] \<longrightarrow>
           (\<exists>rest. log (createOrLoadConversation_part000 env w) =
               log w @ SelectLatestConversation (user_id sess) # rest)
         \<and> ((\<exists>c \<in> set (tbl_conversations (db w)). c_user_id c = user_id sess) \<longrightarrow>
              (\<exists>c \<in> set (tbl_conversations (db w)). c_user_id c = user_id sess
                 \<and> (\<forall>c' \<in> set (tbl_conversations (db w)).
                       c_user_id c' = user_id sess \<longrightarrow> c_updated_at c' \<le> c_updated_at c)
                 \<and> currentConversation (ui (createOrLoadConversation_part000 env w)) = Some (c_id c)
                 \<and> db (createOrLoadConversation_part000 env w) = db w
                 \<and> (\<exists>rest. log (createOrLoadConversation_part000 env w) =
                       log w @ SelectLatestConversation (user_id sess) # SelectMessages (c_id c) # rest)))
         \<and> ((\<forall>c \<in> set (tbl_conversations (db w)). c_user_id c \<noteq> user_id sess) \<longrightarrow>
              createOrLoadConversation_part000 env w =
                w\<lparr>log := log w @ [SelectLatestConversation (user_id sess),
                                  Navigate (ascii ''/chat-history'')]\<rparr>))
       \<and> (\<exists>rest. log (createOrLoadConversation_ChatTsx env w) =
               log w @ SelectLatestConversation (user_id sess) # rest)
       \<and> ((\<exists>c \<in> set (tbl_conversations (db w)). c_user_id c = user_id sess) \<longrightarrow>
            (\<exists>c \<in> set (tbl_conversations (db w)). c_user_id c = user_id sess
               \<and> (\<forall>c' \<in> set (tbl_conversations (db w)).
                     c_user_id c' = user_id sess \<longrightarrow> c_updated_at c' \<le> c_updated_at c)
               \<and> currentConversation (ui (createOrLoadConversation_ChatTsx env w)) = Some (c_id c)
               \<and> db (createOrLoadConversation_ChatTsx env w) = db w
               \<and> (\<exists>rest. log (createOrLoadConversation_ChatTsx env w) =
                     log w @ SelectLatestConversation (user_id sess) # SelectMessages (c_id c) # rest)))
       \<and> ((\<forall>c \<in> set (tbl_conversations (db w)). c_user_id c \<noteq> user_id sess) \<longrightarrow>
            (\<forall>new_id elapsed. conv_insert env = Inr (new_id, elapsed) \<longrightarrow>
               createOrLoadConversation_ChatTsx env w =
                 w\<lparr>db := (db w)\<lparr>tbl_conversations := tbl_conversations (db w) @
                        [\<lparr>c_id = new_id, c_user_id = user_id sess, c_title = ascii ''Nova Conversa'',
                          c_created_at = db_clock (db w) + elapsed,
                          c_updated_at = db_clock (db w) + elapsed\<rparr>],
                        db_clock := db_clock (db w) + elapsed\<rparr>,
                   ui := (ui w)\<lparr>currentConversation := Some new_id, messages := []\<rparr>,
                   log := log w @ [SelectLatestConversation (user_id sess),
                                   InsertConversation (user_id sess) (ascii ''Nova Conversa'')]\<rparr>))"
proof -
  have latest: "createOrLoadConversation_part000 env w =
                  (case load_latest_part000 env sess w of
                     (None, w1) \<Rightarrow> w1
                   | (Some e, w1) \<Rightarrow>
                       navigate (ascii ''/chat-history'')
                         (toast (ascii ''Erro'')
                            (ascii ''N'' @ [0xE3] @ ascii ''o foi poss'' @ [0xED]
                               @ ascii ''vel carregar a conversa'')
                            (ascii ''destructive'') w1))"
    if "searchParams_conversation (ui w) = None \<or> searchParams_conversation (ui w) = Some []"
    using that assms(1)
    by (auto simp add: createOrLoadConversation_part000_def split: prod.splits option.splits)
  have chat: "createOrLoadConversation_ChatTsx env w =
                  (case load_try_ChatTsx env sess w of
                     (None, w1) \<Rightarrow> w1
                   | (Some e, w1) \<Rightarrow>
                       toast (ascii ''Erro'')
                         (ascii ''N'' @ [0xE3] @ ascii ''o foi poss'' @ [0xED]
                            @ ascii ''vel carregar a conversa'')
                         (ascii ''destructive'') w1)"
    using assms(1)
    by (auto simp add: createOrLoadConversation_ChatTsx_def split: prod.splits option.splits)
  have p1: "\<exists>rest. log (createOrLoadConversation_part000 env w) =
               log w @ SelectLatestConversation (user_id sess) # rest"
    if "searchParams_conversation (ui w) = None \<or> searchParams_conversation (ui w) = Some []"
    unfolding latest [OF that]
    by (auto simp add: load_latest_part000_def screen_defs Let_def
        split: sum.splits list.splits option.splits prod.splits)
  have p2: "\<exists>c \<in> set (tbl_conversations (db w)). c_user_id c = user_id sess
                 \<and> (\<forall>c' \<in> set (tbl_conversations (db w)).
                       c_user_id c' = user_id sess \<longrightarrow> c_updated_at c' \<le> c_updated_at c)
                 \<and> currentConversation (ui (createOrLoadConversation_part000 env w)) = Some (c_id c)
                 \<and> db (createOrLoadConversation_part000 env w) = db w
                 \<and> (\<exists>rest. log (createOrLoadConversation_part000 env w) =
                       log w @ SelectLatestConversation (user_id sess) # SelectMessages (c_id c) # rest)"
    if "searchParams_conversation (ui w) = None \<or> searchParams_conversation (ui w) = Some []"
      and "\<exists>c \<in> set (tbl_conversations (db w)). c_user_id c = user_id sess"
  proof -
    from load_latest_part000_found [OF assms(2) that(2)]
    obtain c thrown w' where f: "load_latest_part000 env sess w = (thrown, w')"
      "c \<in> set (tbl_conversations (db w))" "c_user_id c = user_id sess"
      "\<forall>c' \<in> set (tbl_conversations (db w)).
          c_user_id c' = user_id sess \<longrightarrow> c_updated_at c' \<le> c_updated_at c"
      "currentConversation (ui w') = Some (c_id c)" "db w' = db w"
      "\<exists>rest. log w' = log w @ SelectLatestConversation (user_id sess) # SelectMessages (c_id c) # rest"
      by blast
    show ?thesis
      unfolding latest [OF that(1)] using f
      by (cases thrown) (auto simp add: screen_defs intro!: bexI [of _ c])
  qed
  have p3: "createOrLoadConversation_part000 env w =
                w\<lparr>log := log w @ [SelectLatestConversation (user_id sess),
                                  Navigate (ascii ''/chat-history'')]\<rparr>"
    if "searchParams_conversation (ui w) = None \<or> searchParams_conversation (ui w) = Some []"
      and "\<forall>c \<in> set (tbl_conversations (db w)). c_user_id c \<noteq> user_id sess"
    unfolding latest [OF that(1)] load_latest_part000_empty [OF assms(2) that(2)] by simp
  have q1: "\<exists>rest. log (createOrLoadConversation_ChatTsx env w) =
               log w @ SelectLatestConversation (user_id sess) # rest"
    unfolding chat
    by (auto simp add: load_try_ChatTsx_def screen_defs Let_def insert_conversation_def
        split: sum.splits list.splits option.splits prod.splits)
  have q2: "\<exists>c \<in> set (tbl_conversations (db w)). c_user_id c = user_id sess
               \<and> (\<forall>c' \<in> set (tbl_conversations (db w)).
                     c_user_id c' = user_id sess \<longrightarrow> c_updated_at c' \<le> c_updated_at c)
               \<and> currentConversation (ui (createOrLoadConversation_ChatTsx env w)) = Some (c_id c)
               \<and> db (createOrLoadConversation_ChatTsx env w) = db w
               \<and> (\<exists>rest. log (createOrLoadConversation_ChatTsx env w) =
                     log w @ SelectLatestConversation (user_id sess) # SelectMessages (c_id c) # rest)"
    if "\<exists>c \<in> set (tbl_conversations (db w)). c_user_id c = user_id sess"
  proof -
    from load_try_ChatTsx_found [OF assms(2) that]
    obtain c thrown w' where f: "load_try_ChatTsx env sess w = (thrown, w')"
      "c \<in> set (tbl_conversations (db w))" "c_user_id c = user_id sess"
      "\<forall>c' \<in> set (tbl_conversations (db w)).
          c_user_id c' = user_id sess \<longrightarrow> c_updated_at c' \<le> c_updated_at c"
      "currentConversation (ui w') = Some (c_id c)" "db w' = db w"
      "\<exists>rest. log w' = log w @ SelectLatestConversation (user_id sess) # SelectMessages (c_id c) # rest"
      by blast
    show ?thesis
      unfolding chat using f
      by (cases thrown) (auto simp add: screen_defs intro!: bexI [of _ c])
  qed
  have q3: "createOrLoadConversation_ChatTsx env w =
                 w\<lparr>db := (db w)\<lparr>tbl_conversations := tbl_conversations (db w) @
                        [\<lparr>c_id = new_id, c_user_id = user_id sess, c_title = ascii ''Nova Conversa'',
                          c_created_at = db_clock (db w) + elapsed,
                          c_updated_at = db_clock (db w) + elapsed\<rparr>],
                        db_clock := db_clock (db w) + elapsed\<rparr>,
                   ui := (ui w)\<lparr>currentConversation := Some new_id, messages := []\<rparr>,
                   log := log w @ [SelectLatestConversation (user_id sess),
                                   InsertConversation (user_id sess) (ascii ''Nova Conversa'')]\<rparr>"
    if "\<forall>c \<in> set (tbl_conversations (db w)). c_user_id c \<noteq> user_id sess"
      and "conv_insert env = Inr (new_id, elapsed)" for new_id elapsed
    unfolding chat load_try_ChatTsx_empty [OF assms(2) that] by simp
  show ?thesis
    using p1 p2 p3 q1 q2 q3 by blast
qed

theorem latest_or_fresh_conversation_witness:
  "session (ui returning_world) = Some \<lparr>user_id = ascii ''u1''\<rparr>
   \<and> session (ui newcomer_world) = Some \<lparr>user_id = ascii ''u3''\<rparr>
   \<and> conv_select_failure calm_load = None
   \<and> searchParams_conversation (ui returning_world) = None
   \<and> searchParams_conversation (ui newcomer_world) = None
   \<and> currentConversation (ui (createOrLoadConversation_part000 calm_load returning_world)) =
        Some (ascii ''c3'')
   \<and> currentConversation (ui (createOrLoadConversation_ChatTsx calm_load returning_world)) =
        Some (ascii ''c3'')
   \<and> createOrLoadConversation_part000 calm_load newcomer_world =
        newcomer_world\<lparr>log := [SelectLatestConversation (ascii ''u3''),
                                Navigate (ascii ''/chat-history'')]\<rparr>
   \<and> map c_title (tbl_conversations (db (createOrLoadConversation_ChatTsx calm_load newcomer_world))) =
        [ascii ''A'', ascii ''B'', ascii ''C'', ascii ''Nova Conversa'']
   \<and> currentConversation (ui (createOrLoadConversation_ChatTsx calm_load newcomer_world)) =
        Some (ascii ''c9'')
   \<and> messages (ui (createOrLoadConversation_ChatTsx calm_load newcomer_world)) = []"
  using latest_or_fresh_conversation [of returning_world "\<lparr>user_id = ascii ''u1''\<rparr>" calm_load]
        latest_or_fresh_conversation [of newcomer_world "\<lparr>user_id = ascii ''u3''\<rparr>" calm_load]
  by (simp add: run_defs string_defs load_defs screen_defs select_conversations_def
      select_messages_def insert_conversation_def Let_def)

text \<open>
  C7. In every state a Chat screen reaches by resolving conversations and sending
  messages (over a storage service that stamps each inserted row with a clock that does
  not run backwards), the transcript is in non-decreasing order of creation time: a
  resolution replaces it by the messages fetched in ascending \<open>created_at\<close> order, and a
  send appends the user message and then the assistant message, each stamped no earlier
  than everything already shown.
\<close>

theorem transcript_in_creation_order:
  assumes "reachable v w"
  shows "sorted (map m_created_at (messages (ui w)))"
  using reachable_transcript_ok [OF assms] by (simp add: transcript_ok_def)

theorem transcript_in_creation_order_witness:
  "reachable Part000 etf_run
   \<and> sorted (map m_created_at (messages (ui etf_run)))
   \<and> map m_created_at (messages (ui etf_run)) = [105, 112]"
proof -
  have r: "reachable Part000 etf_run"
    unfolding etf_run_def
    by (intro reachable.send reachable.typed reachable.load reachable.auth reachable.mount)
       (simp add: etf_storage_def)
  have "map m_created_at (messages (ui etf_run)) = [105, 112]"
    by (simp add: etf_run_def run_defs setSession_def load_defs send_defs screen_defs
        string_defs select_conversation_single_def select_messages_def Let_def)
  then show ?thesis
    using r transcript_in_creation_order [OF r] by simp
qed




text \<open>
  C9. The claim: every failure of a step of a send, the final update of \<open>updated_at\<close>
  included, ends in a notification, and none is silently discarded. Both variants
  discard the failure of that update: they await it and never look at its error. In the
  scenario with a failing update, the send of either variant ends right after the
  update call, with no notification, and the conversation's \<open>updated_at\<close> is as before.
\<close>

theorem update_failure_not_notified:
  "log (sendMessage_part000 (etf_env\<lparr>conv_update_failure := Some (ascii ''timeout'')\<rparr>) etf_world) =
     [InsertMessage (ascii ''c1'') (ascii ''What is a good ETF?'') (ascii ''user''),
      PostWebhook (ascii ''What is a good ETF?'') (ascii ''u1'') (ascii ''c1''),
      InsertMessage (ascii ''c1'') (ascii ''Consider low-cost index funds.'') (ascii ''assistant''),
      UpdateConversation (ascii ''c1'') 115]
   \<and> log (sendMessage_ChatTsx (etf_env\<lparr>conv_update_failure := Some (ascii ''timeout'')\<rparr>) etf_world) =
     [InsertMessage (ascii ''c1'') (ascii ''What is a good ETF?'') (ascii ''user''),
      PostWebhook (ascii ''What is a good ETF?'') (ascii ''u1'') (ascii ''c1''),
      InsertMessage (ascii ''c1'') (ascii ''Consider low-cost index funds.'') (ascii ''assistant''),
      UpdateConversation (ascii ''c1'') 115]
   \<and> map c_updated_at (tbl_conversations (db (sendMessage_part000
         (etf_env\<lparr>conv_update_failure := Some (ascii ''timeout'')\<rparr>) etf_world))) = [100]
   \<and> map c_updated_at (tbl_conversations (db (sendMessage_ChatTsx
         (etf_env\<lparr>conv_update_failure := Some (ascii ''timeout'')\<rparr>) etf_world))) = [100]"
  by (simp add: run_defs send_defs screen_defs string_defs Let_def)

text \<open>
  C10. As stated, the equivalence of the two variants for a 2xx answer with a non-empty
  body fails: for a body of one blank, the variant of \<^verbatim>\<open>unnamed/part_000\<close> treats the reply as empty and
  stops with a notification, while the other stores the blank as the assistant message
  and refreshes \<open>updated_at\<close>.
\<close>

theorem variants_differ_on_blank_reply:
  "webhook (etf_env\<lparr>webhook := FetchResponse 200 (Inr [0x20])\<rparr>) = FetchResponse 200 (Inr [0x20])
   \<and> response_ok 200 \<and> [0x20 :: 16 word] \<noteq> []
   \<and> log (sendMessage_part000 (etf_env\<lparr>webhook := FetchResponse 200 (Inr [0x20])\<rparr>) etf_world) =
     [InsertMessage (ascii ''c1'') (ascii ''What is a good ETF?'') (ascii ''user''),
      PostWebhook (ascii ''What is a good ETF?'') (ascii ''u1'') (ascii ''c1''),
      Toast (ascii ''Erro'') (ascii ''Resposta vazia do agente IA'') (ascii ''destructive'')]
   \<and> log (sendMessage_ChatTsx (etf_env\<lparr>webhook := FetchResponse 200 (Inr [0x20])\<rparr>) etf_world) =
     [InsertMessage (ascii ''c1'') (ascii ''What is a good ETF?'') (ascii ''user''),
      PostWebhook (ascii ''What is a good ETF?'') (ascii ''u1'') (ascii ''c1''),
      InsertMessage (ascii ''c1'') [0x20] (ascii ''assistant''),
      UpdateConversation (ascii ''c1'') 115]"
  by (simp add: run_defs send_defs screen_defs string_defs Let_def)

text \<open>
  C10, amended. Whenever the webhook answers 2xx with a body that is non-empty after
  trimming white space, and all storage calls succeed, the sends of the two variants,
  from the same session, active conversation and input, end in the same state of storage
  and screen with the same log: the insert of the user message, the webhook call with
  the message, the user id and the conversation id, the insert of the assistant message,
  and the update of \<open>updated_at\<close>, in this order.
\<close>

theorem variants_agree_on_success:
  assumes "currentConversation (ui w) = Some conv" and "conv \<noteq> []"
    and "session (ui w) = Some sess"
    and "trim (currentMessage (ui w)) = input" and "input \<noteq> []"
    and "user_insert env = Inr (user_msg_id, e1)"
    and "webhook env = FetchResponse status (Inr body)" and "response_ok status"
    and "trim body \<noteq> []"
    and "ai_insert env = Inr (ai_msg_id, e2)"
    and "conv_update_failure env = None"
  shows "sendMessage_part000 env w = sendMessage_ChatTsx env w
       \<and> log (sendMessage_ChatTsx env w) = log w @
           [InsertMessage conv input (ascii ''user''),
            PostWebhook input (user_id sess) conv,
            InsertMessage conv body (ascii ''assistant''),
            UpdateConversation conv (client_now env)]"
  using assms
  by (auto simp add: send_defs screen_defs Let_def)

theorem variants_agree_on_success_witness:
  "currentConversation (ui etf_world) = Some (ascii ''c1'') \<and> ascii ''c1'' \<noteq> []
   \<and> session (ui etf_world) = Some \<lparr>user_id = ascii ''u1''\<rparr>
   \<and> trim (currentMessage (ui etf_world)) = ascii ''What is a good ETF?''
   \<and> ascii ''What is a good ETF?'' \<noteq> []
   \<and> user_insert etf_env = Inr (ascii ''m1'', 5)
   \<and> webhook etf_env = FetchResponse 200 (Inr (ascii ''Consider low-cost index funds.''))
   \<and> response_ok 200
   \<and> trim (ascii ''Consider low-cost index funds.'') \<noteq> []
   \<and> ai_insert etf_env = Inr (ascii ''m2'', 7)
   \<and> conv_update_failure etf_env = None
   \<and> sendMessage_part000 etf_env etf_world = sendMessage_ChatTsx etf_env etf_world
   \<and> log (sendMessage_ChatTsx etf_env etf_world) =
        [InsertMessage (ascii ''c1'') (ascii ''What is a good ETF?'') (ascii ''user''),
         PostWebhook (ascii ''What is a good ETF?'') (ascii ''u1'') (ascii ''c1''),
         InsertMessage (ascii ''c1'') (ascii ''Consider low-cost index funds.'') (ascii ''assistant''),
         UpdateConversation (ascii ''c1'') 115]"
  using variants_agree_on_success
          [of etf_world "ascii ''c1''" "\<lparr>user_id = ascii ''u1''\<rparr>" "ascii ''What is a good ETF?''"
              etf_env "ascii ''m1''" 5 200 "ascii ''Consider low-cost index funds.''" "ascii ''m2''" 7]
  by (simp add: run_defs send_defs screen_defs string_defs Let_def)

end
